theory Spec2Isabelle
  imports Main
begin

section \<open>Data model of src/src/App.js\<close>

text \<open>
  Strings are byte lists holding the UTF-8 encoding of the JavaScript string, so the
  two non-ASCII marks of the source are three bytes each: the check mark U+2705 and
  the cross mark U+274C.
\<close>

definition check_mark :: string where
  "check_mark = [CHR 0xE2, CHR 0x9C, CHR 0x85]"

definition cross_mark :: string where
  "cross_mark = [CHR 0xE2, CHR 0x9D, CHR 0x8C]"

definition API_BASE :: string where
  "API_BASE = ''http://localhost:2148/api''"

text \<open>
  An identifier is a number or a string; \<open>!==\<close> never coerces, so a number and a
  string are always different identifiers.
\<close>

datatype ident = NumId nat | StrId string

record item =
  item_id :: ident
  item_title :: string
  item_description :: string
  item_imageUrl :: "string option"
  item_createdAt :: string

datatype upload = File string

text \<open>The form draft of line 10; \<open>None\<close> is the \<open>null\<close> (or \<open>undefined\<close>) image.\<close>

record form_draft =
  title :: string
  description :: string
  image :: "upload option"

text \<open>
  The five state cells of the component (lines 9 to 17) and the value of the DOM
  element \<open>imageInput\<close>, \<open>None\<close> when no such element exists.
\<close>

record app_state =
  content :: "item list"
  formData :: form_draft
  loading :: bool
  message :: string
  serverStatus :: string
  imageInput :: "string option"

definition initial_state :: app_state where
  "initial_state =
     \<lparr>content = [],
      formData = \<lparr>title = [], description = [], image = None\<rparr>,
      loading = False,
      message = [],
      serverStatus = ''checking...'',
      imageInput = Some []\<rparr>"

subsection \<open>Requests and their outcomes\<close>

datatype part = Text string | Blob upload

datatype request =
    GET string
  | POST string "(string \<times> part) list"
  | DELETE string

text \<open>
  The body of a response, \<open>response.data\<close>, typed as the backend contract gives it: a
  success flag, the payload and an optional message.
\<close>

record 'd response_data =
  resp_success :: bool
  resp_data :: 'd
  resp_message :: "string option"

text \<open>
  The value an axios call rejects with: \<open>error.response\<close> (with its status, status
  text and optional body, whose message is optional too), whether \<open>error.request\<close>
  is set, and \<open>error.message\<close>.
\<close>

record error_body =
  body_message :: "string option"

record error_response =
  status :: nat
  statusText :: string
  err_data :: "error_body option"

record error =
  err_response :: "error_response option"
  err_request :: bool
  err_message :: string

datatype 'd outcome = Resolved "'d response_data" | Rejected error

subsection \<open>JavaScript operators used by the handlers\<close>

text \<open>Decimal rendering of a number inside a template literal.\<close>

definition digit :: "nat \<Rightarrow> char" where
  "digit d = char_of (48 + d)"

fun show_nat :: "nat \<Rightarrow> string" where
  "show_nat n = (if n < 10 then [digit n] else show_nat (n div 10) @ [digit (n mod 10)])"

declare show_nat.simps [simp del]

fun show_ident :: "ident \<Rightarrow> string" where
  "show_ident (NumId n) = show_nat n"
| "show_ident (StrId s) = s"

text \<open>
  \<open>x || y\<close> on an optional string: \<open>x\<close> when it is present and not empty (truthy),
  \<open>y\<close> otherwise.
\<close>

fun or_else :: "string option \<Rightarrow> string \<Rightarrow> string" where
  "or_else None y = y"
| "or_else (Some x) y = (if x = [] then y else x)"

text \<open>\<open>error.response?.data?.message\<close> of line 117.\<close>

definition response_data_message :: "error \<Rightarrow> string option" where
  "response_data_message e =
     (case err_response e of
        None \<Rightarrow> None
      | Some r \<Rightarrow> (case err_data r of None \<Rightarrow> None | Some d \<Rightarrow> body_message d))"

section \<open>The handlers\<close>

text \<open>
  An asynchronous handler runs in two parts. The first runs up to its \<open>await\<close> and
  gives the state it leaves and the request it sent, \<open>None\<close> when it returned without
  sending one. The second runs when the request has completed, on the state of that
  moment and the outcome of the request.
\<close>

subsection \<open>checkServerHealth, lines 20 to 31\<close>

definition checkServerHealth_start :: "app_state \<Rightarrow> app_state \<times> request option" where
  "checkServerHealth_start s = (s, Some (GET (API_BASE @ ''/health'')))"

definition checkServerHealth_resume :: "unit outcome \<Rightarrow> app_state \<Rightarrow> app_state" where
  "checkServerHealth_resume out s =
     (case out of
        Resolved r \<Rightarrow>
          (if resp_success r then s\<lparr>serverStatus := check_mark @ '' Connected''\<rparr> else s)
      | Rejected e \<Rightarrow> s\<lparr>serverStatus := cross_mark @ '' Disconnected''\<rparr>)"

subsection \<open>fetchContent, lines 34 to 56\<close>

definition fetchContent_start :: "app_state \<Rightarrow> app_state \<times> request option" where
  "fetchContent_start s = (s, Some (GET (API_BASE @ ''/content'')))"

definition fetchContent_resume :: "item list outcome \<Rightarrow> app_state \<Rightarrow> app_state" where
  "fetchContent_resume out s =
     (case out of
        Resolved r \<Rightarrow>
          (if resp_success r then s\<lparr>content := resp_data r, message := []\<rparr>
           else s\<lparr>message := ''Server error: '' @ or_else (resp_message r) ''Unknown error''\<rparr>)
      | Rejected e \<Rightarrow>
          (case err_response e of
             Some r \<Rightarrow>
               s\<lparr>message := ''Error: '' @ show_nat (status r) @ '' - '' @ statusText r\<rparr>
           | None \<Rightarrow>
               (if err_request e
                then s\<lparr>message :=
                  ''Cannot connect to server. Make sure backend is running on port 2148!''\<rparr>
                else s\<lparr>message := ''Error: '' @ err_message e\<rparr>)))"

subsection \<open>handleInputChange and handleFileChange, lines 64 to 78\<close>

text \<open>The two named inputs of the form, lines 168 and 179.\<close>

datatype input_name = title_input | description_input

fun handleInputChange :: "input_name \<Rightarrow> string \<Rightarrow> app_state \<Rightarrow> app_state" where
  "handleInputChange title_input v s = s\<lparr>formData := (formData s)\<lparr>title := v\<rparr>\<rparr>"
| "handleInputChange description_input v s = s\<lparr>formData := (formData s)\<lparr>description := v\<rparr>\<rparr>"

text \<open>\<open>e.target.files[0]\<close> is \<open>undefined\<close> when no file is chosen.\<close>

definition handleFileChange :: "upload list \<Rightarrow> app_state \<Rightarrow> app_state" where
  "handleFileChange files s =
     s\<lparr>formData := (formData s)\<lparr>image := (case files of [] \<Rightarrow> None | f # _ \<Rightarrow> Some f)\<rparr>\<rparr>"

subsection \<open>handleSubmit, lines 81 to 121\<close>

definition handleSubmit_start :: "app_state \<Rightarrow> app_state \<times> request option" where
  "handleSubmit_start s =
     (if title (formData s) = [] \<or> description (formData s) = [] \<or> image (formData s) = None
      then (s\<lparr>message := ''Please fill all fields and select an image''\<rparr>, None)
      else (s\<lparr>loading := True, message := []\<rparr>,
            Some (POST (API_BASE @ ''/content'')
              [(''title'', Text (title (formData s))),
               (''description'', Text (description (formData s))),
               (''image'', Blob (the (image (formData s))))])))"

definition handleSubmit_resume :: "item outcome \<Rightarrow> app_state \<Rightarrow> app_state" where
  "handleSubmit_resume out s =
     (case out of
        Resolved r \<Rightarrow>
          (if resp_success r
           then s\<lparr>message := check_mark @ '' Content added successfully!'',
                  formData := \<lparr>title = [], description = [], image = None\<rparr>,
                  imageInput := map_option (\<lambda>v. []) (imageInput s),
                  content := resp_data r # content s\<rparr>
           else s)
      | Rejected e \<Rightarrow>
          s\<lparr>message := cross_mark @ '' Error adding content: ''
                 @ or_else (response_data_message e) (err_message e)\<rparr>)
     \<lparr>loading := False\<rparr>"

subsection \<open>handleDelete, lines 124 to 136\<close>

text \<open>The first argument is the answer of \<open>window.confirm\<close>.\<close>

definition handleDelete_start :: "bool \<Rightarrow> ident \<Rightarrow> app_state \<Rightarrow> app_state \<times> request option" where
  "handleDelete_start confirmed i s =
     (if confirmed then (s, Some (DELETE (API_BASE @ ''/content/'' @ show_ident i)))
      else (s, None))"

definition handleDelete_resume :: "ident \<Rightarrow> unit outcome \<Rightarrow> app_state \<Rightarrow> app_state" where
  "handleDelete_resume i out s =
     (case out of
        Resolved r \<Rightarrow>
          (if resp_success r
           then s\<lparr>message := check_mark @ '' Content deleted successfully!'',
                  content := filter (\<lambda>item. item_id item \<noteq> i) (content s)\<rparr>
           else s)
      | Rejected e \<Rightarrow>
          s\<lparr>message := cross_mark @ '' Error deleting content: '' @ err_message e\<rparr>)"

subsection \<open>The submit button, line 199\<close>

definition submit_disabled :: "app_state \<Rightarrow> bool" where
  "submit_disabled s = loading s"

section \<open>The page as an event system\<close>

text \<open>
  The host's event loop runs one handler part at a time. An event is a user action
  (the first part of a handler, or a synchronous handler) or the completion of a
  request (the second part). The system state adds to the component's state the
  requests sent so far and the number of create requests in flight.
\<close>

datatype event =
    HealthCheck
  | HealthDone "unit outcome"
  | Fetch
  | FetchDone "item list outcome"
  | InputChange input_name string
  | FileChange "upload list"
  | Submit
  | SubmitDone "item outcome"
  | Delete bool ident
  | DeleteDone ident "unit outcome"

record sys =
  view :: app_state
  sent :: "request list"
  creating :: nat

definition initial_sys :: sys where
  "initial_sys = \<lparr>view = initial_state, sent = [], creating = 0\<rparr>"

definition send :: "app_state \<times> request option \<Rightarrow> sys \<Rightarrow> sys" where
  "send r s =
     (case snd r of
        None \<Rightarrow> s\<lparr>view := fst r\<rparr>
      | Some q \<Rightarrow> s\<lparr>view := fst r, sent := sent s @ [q]\<rparr>)"

text \<open>
  A disabled submit button submits nothing, so \<open>Submit\<close> is no event while the
  button is disabled; \<open>SubmitDone\<close> is no event while no create request is in flight.
\<close>

fun step :: "event \<Rightarrow> sys \<Rightarrow> sys" where
  "step HealthCheck s = send (checkServerHealth_start (view s)) s"
| "step (HealthDone out) s = s\<lparr>view := checkServerHealth_resume out (view s)\<rparr>"
| "step Fetch s = send (fetchContent_start (view s)) s"
| "step (FetchDone out) s = s\<lparr>view := fetchContent_resume out (view s)\<rparr>"
| "step (InputChange n v) s = s\<lparr>view := handleInputChange n v (view s)\<rparr>"
| "step (FileChange fs) s = s\<lparr>view := handleFileChange fs (view s)\<rparr>"
| "step Submit s =
     (if submit_disabled (view s) then s
      else (let r = handleSubmit_start (view s)
            in (send r s)\<lparr>creating := (if snd r = None then creating s else Suc (creating s))\<rparr>))"
| "step (SubmitDone out) s =
     (if creating s = 0 then s
      else s\<lparr>view := handleSubmit_resume out (view s), creating := creating s - 1\<rparr>)"
| "step (Delete confirmed i) s = send (handleDelete_start confirmed i (view s)) s"
| "step (DeleteDone i out) s = s\<lparr>view := handleDelete_resume i out (view s)\<rparr>"

fun run :: "event list \<Rightarrow> sys \<Rightarrow> sys" where
  "run [] s = s"
| "run (e # es) s = run es (step e s)"

section \<open>Predicates and example values used by the theorems\<close>

text \<open>
  A list fetch has failed when the request was rejected (an error status, no response,
  or any other error) or when it resolved with a false success flag.
\<close>

fun fetch_failed :: "item list outcome \<Rightarrow> bool" where
  "fetch_failed (Resolved r) = (\<not> resp_success r)"
| "fetch_failed (Rejected e) = True"

text \<open>The loading flag is set exactly when one create request is in flight.\<close>

definition load_inv :: "sys \<Rightarrow> bool" where
  "load_inv s = (creating s = (if loading (view s) then 1 else 0))"

definition item_A :: item where
  "item_A = \<lparr>item_id = NumId 1, item_title = ''A'', item_description = ''a'',
     item_imageUrl = None, item_createdAt = ''2024-01-01''\<rparr>"

definition item_B :: item where
  "item_B = \<lparr>item_id = NumId 2, item_title = ''B'', item_description = ''d'',
     item_imageUrl = Some ''/uploads/b.png'', item_createdAt = ''2024-01-02''\<rparr>"

definition draft_B :: app_state where
  "draft_B = initial_state
     \<lparr>formData := \<lparr>title = ''B'', description = ''d'', image = Some (File ''b.png'')\<rparr>\<rparr>"

definition fill_and_submit :: "event list" where
  "fill_and_submit =
     [InputChange title_input ''B'', InputChange description_input ''d'',
      FileChange [File ''b.png''], Submit]"

definition ok_response :: "'d \<Rightarrow> 'd response_data" where
  "ok_response d = \<lparr>resp_success = True, resp_data = d, resp_message = None\<rparr>"

definition refused_response :: "'d \<Rightarrow> string \<Rightarrow> 'd response_data" where
  "refused_response d m = \<lparr>resp_success = False, resp_data = d, resp_message = Some m\<rparr>"

definition status_error :: error where
  "status_error =
     \<lparr>err_response = Some \<lparr>status = 500, statusText = ''Internal Server Error'',
        err_data = Some \<lparr>body_message = Some ''Disk full''\<rparr>\<rparr>,
      err_request = True,
      err_message = ''Request failed with status code 500''\<rparr>"

definition network_error :: error where
  "network_error = \<lparr>err_response = None, err_request = True, err_message = ''Network Error''\<rparr>"

definition client_error :: error where
  "client_error = \<lparr>err_response = None, err_request = False, err_message = ''Invalid URL''\<rparr>"

text \<open>
  An error with no response and no request whose text reads like a status line.
\<close>

definition status_like_error :: error where
  "status_like_error =
     \<lparr>err_response = None, err_request = False,
      err_message = ''500 - Internal Server Error''\<rparr>"

section \<open>Frame lemmas: what each handler part leaves alone\<close>

lemma loading_checkServerHealth_resume:
  "loading (checkServerHealth_resume out s) = loading s"
  by (simp add: checkServerHealth_resume_def split: outcome.split)

lemma loading_fetchContent_resume:
  "loading (fetchContent_resume out s) = loading s"
  by (simp add: fetchContent_resume_def split: outcome.split option.split)

lemma loading_handleDelete_resume:
  "loading (handleDelete_resume i out s) = loading s"
  by (simp add: handleDelete_resume_def split: outcome.split)

lemma loading_handleInputChange:
  "loading (handleInputChange n v s) = loading s"
  by (cases n) simp_all

lemma loading_handleFileChange:
  "loading (handleFileChange fs s) = loading s"
  by (simp add: handleFileChange_def)

lemma loading_handleSubmit_resume:
  "loading (handleSubmit_resume out s) = False"
  by (simp add: handleSubmit_resume_def)

lemmas loading_frame =
  loading_checkServerHealth_resume loading_fetchContent_resume loading_handleDelete_resume
  loading_handleInputChange loading_handleFileChange loading_handleSubmit_resume

lemma view_send: "view (send r s) = fst r"
  by (simp add: send_def split: option.split)

lemma creating_send: "creating (send r s) = creating s"
  by (simp add: send_def split: option.split)

lemma content_start:
  "content (fst (checkServerHealth_start v)) = content v"
  "content (fst (fetchContent_start v)) = content v"
  "content (fst (handleSubmit_start v)) = content v"
  "content (fst (handleDelete_start c i v)) = content v"
  by (simp_all add: checkServerHealth_start_def fetchContent_start_def handleSubmit_start_def
      handleDelete_start_def)

lemma content_handleInputChange: "content (handleInputChange n x v) = content v"
  by (cases n) simp_all

lemma content_handleFileChange: "content (handleFileChange fs v) = content v"
  by (simp add: handleFileChange_def)

lemma content_checkServerHealth_resume: "content (checkServerHealth_resume out v) = content v"
  by (simp add: checkServerHealth_resume_def split: outcome.split)

lemma content_fetchContent_resume:
  "content (fetchContent_resume out v)
     = (case out of
          Resolved r \<Rightarrow> if resp_success r then resp_data r else content v
        | Rejected e \<Rightarrow> content v)"
  by (simp add: fetchContent_resume_def split: outcome.split option.split)

lemma content_handleSubmit_resume:
  "content (handleSubmit_resume out v)
     = (case out of
          Resolved r \<Rightarrow> if resp_success r then resp_data r # content v else content v
        | Rejected e \<Rightarrow> content v)"
  by (simp add: handleSubmit_resume_def split: outcome.split)

lemma content_handleDelete_resume:
  "content (handleDelete_resume i out v)
     = (case out of
          Resolved r \<Rightarrow>
            if resp_success r then filter (\<lambda>it. item_id it \<noteq> i) (content v) else content v
        | Rejected e \<Rightarrow> content v)"
  by (simp add: handleDelete_resume_def split: outcome.split)

section \<open>The loading flag along every run\<close>

lemma load_inv_step:
  assumes "load_inv s"
  shows "load_inv (step e s)"
proof (cases e)
  case Submit
  with assms show ?thesis
    by (simp add: load_inv_def submit_disabled_def handleSubmit_start_def Let_def
        view_send creating_send)
next
  case (SubmitDone out)
  with assms show ?thesis
    by (simp add: load_inv_def loading_frame split: if_splits)
next
  case HealthCheck
  with assms show ?thesis
    by (simp add: load_inv_def view_send creating_send checkServerHealth_start_def)
next
  case Fetch
  with assms show ?thesis
    by (simp add: load_inv_def view_send creating_send fetchContent_start_def)
next
  case (Delete c i)
  with assms show ?thesis
    by (simp add: load_inv_def view_send creating_send handleDelete_start_def)
qed (use assms in \<open>simp_all add: load_inv_def loading_frame\<close>)

lemma load_inv_run: "load_inv s \<Longrightarrow> load_inv (run es s)"
  by (induction es arbitrary: s) (simp_all add: load_inv_step)

lemma load_inv_initial: "load_inv initial_sys"
  by (simp add: load_inv_def initial_sys_def initial_state_def)

lemma run_fill_and_submit:
  "view (run fill_and_submit initial_sys) = draft_B\<lparr>loading := True\<rparr>
   \<and> creating (run fill_and_submit initial_sys) = 1"
  by (simp add: fill_and_submit_def initial_sys_def initial_state_def draft_B_def
      handleFileChange_def submit_disabled_def handleSubmit_start_def send_def Let_def)

lemma show_nat_500: "show_nat 500 = ''500''"
  by code_simp

section \<open>Form validation\<close>

text \<open>
  Claim C1. When the title, the description or the image of the draft is missing,
  handleSubmit sends no request (its first part returns none, and the log of sent
  requests of the page is unchanged), leaves the content list and the draft as they
  were and sets the message to the validation message. A request is sent exactly when
  all three fields are present.
\<close>

theorem handleSubmit_missing_field:
  assumes "title (formData s) = [] \<or> description (formData s) = [] \<or> image (formData s) = None"
  shows "snd (handleSubmit_start s) = None
       \<and> content (fst (handleSubmit_start s)) = content s
       \<and> formData (fst (handleSubmit_start s)) = formData s
       \<and> message (fst (handleSubmit_start s)) = ''Please fill all fields and select an image''
       \<and> sent (step Submit \<lparr>view = s, sent = q, creating = n\<rparr>) = q
       \<and> (snd (handleSubmit_start s') \<noteq> None)
           = (title (formData s') \<noteq> [] \<and> description (formData s') \<noteq> []
              \<and> image (formData s') \<noteq> None)"
  using assms by (auto simp add: handleSubmit_start_def send_def)

theorem handleSubmit_missing_field_witness:
  "(title (formData initial_state) = [] \<or> description (formData initial_state) = []
      \<or> image (formData initial_state) = None)
   \<and> snd (handleSubmit_start initial_state) = None
   \<and> content (fst (handleSubmit_start initial_state)) = []
   \<and> formData (fst (handleSubmit_start initial_state)) = formData initial_state
   \<and> message (fst (handleSubmit_start initial_state)) = ''Please fill all fields and select an image''
   \<and> sent (step Submit \<lparr>view = initial_state, sent = [], creating = 0\<rparr>) = []
   \<and> snd (handleSubmit_start draft_B) \<noteq> None"
proof -
  have h: "title (formData initial_state) = [] \<or> description (formData initial_state) = []
      \<or> image (formData initial_state) = None"
    by (simp add: initial_state_def)
  have c: "content initial_state = []"
    by (simp add: initial_state_def)
  have d: "title (formData draft_B) \<noteq> [] \<and> description (formData draft_B) \<noteq> []
      \<and> image (formData draft_B) \<noteq> None"
    by (simp add: draft_B_def)
  show ?thesis
    using h c d handleSubmit_missing_field [OF h, of "[]" 0 draft_B] by simp
qed

section \<open>Create\<close>

text \<open>
  Claim C2. When a create request completes with a response whose success flag is
  true and whose data is the item R, the list afterwards is R followed by the list
  before, in its order, and the draft is reset to an empty title, an empty description
  and no image (the file picker is cleared too).
\<close>

theorem handleSubmit_success:
  assumes "resp_success r"
  shows "content (handleSubmit_resume (Resolved r) s) = resp_data r # content s
       \<and> formData (handleSubmit_resume (Resolved r) s)
           = \<lparr>title = [], description = [], image = None\<rparr>
       \<and> imageInput (handleSubmit_resume (Resolved r) s) = map_option (\<lambda>v. []) (imageInput s)"
  using assms by (simp add: handleSubmit_resume_def)

theorem handleSubmit_success_witness:
  "resp_success (ok_response item_B)
   \<and> content (handleSubmit_resume (Resolved (ok_response item_B)) (draft_B\<lparr>content := [item_A]\<rparr>))
       = [item_B, item_A]
   \<and> formData (handleSubmit_resume (Resolved (ok_response item_B)) (draft_B\<lparr>content := [item_A]\<rparr>))
       = \<lparr>title = [], description = [], image = None\<rparr>"
proof -
  have h: "resp_success (ok_response item_B)"
    by (simp add: ok_response_def)
  have d: "resp_data (ok_response item_B) = item_B"
    by (simp add: ok_response_def)
  show ?thesis
    using h d handleSubmit_success [OF h, of "draft_B\<lparr>content := [item_A]\<rparr>"] by simp
qed

text \<open>
  Claim C6. The claim asks for a message on every failed create request. A rejected
  request gets one (the lemma below). A response with a false success flag does not:
  the message stays the empty string that the first part of the handler set, whatever
  message the response carries.
\<close>

theorem handleSubmit_success_false:
  "message (handleSubmit_resume (Resolved (refused_response item_B ''Title already used''))
      (fst (handleSubmit_start draft_B))) = []"
  by (simp add: handleSubmit_resume_def handleSubmit_start_def draft_B_def initial_state_def
      refused_response_def)

lemma handleSubmit_rejected_message:
  "message (handleSubmit_resume (Rejected e) s)
     = cross_mark @ '' Error adding content: '' @ or_else (response_data_message e) (err_message e)"
  by (simp add: handleSubmit_resume_def)

lemma handleSubmit_rejected_examples:
  "message (handleSubmit_resume (Rejected status_error) s)
     = cross_mark @ '' Error adding content: Disk full''"
  "message (handleSubmit_resume (Rejected network_error) s)
     = cross_mark @ '' Error adding content: Network Error''"
  by (simp_all add: handleSubmit_resume_def response_data_message_def status_error_def
      network_error_def)

text \<open>
  Claim C8. For a draft that passes validation, the first part of handleSubmit sets
  the loading flag and sends the request; the second part clears the flag whatever the
  outcome (success, false success flag, rejection) and whatever the state it resumes
  on. Along every run of the page from its initial state, the submit button is
  disabled exactly when a create request is in flight, and at most one is.
\<close>

theorem submit_loading_flag:
  assumes "title (formData s) \<noteq> []" and "description (formData s) \<noteq> []"
    and "image (formData s) \<noteq> None"
  shows "loading (fst (handleSubmit_start s))
       \<and> snd (handleSubmit_start s) \<noteq> None
       \<and> \<not> loading (handleSubmit_resume out s')
       \<and> submit_disabled (view (run es initial_sys)) = (0 < creating (run es initial_sys))
       \<and> creating (run es initial_sys) \<le> 1"
proof -
  have "load_inv (run es initial_sys)"
    by (rule load_inv_run) (rule load_inv_initial)
  then have "submit_disabled (view (run es initial_sys)) = (0 < creating (run es initial_sys))
       \<and> creating (run es initial_sys) \<le> 1"
    by (simp add: load_inv_def submit_disabled_def split: if_splits)
  moreover have "loading (fst (handleSubmit_start s)) \<and> snd (handleSubmit_start s) \<noteq> None"
    using assms by (simp add: handleSubmit_start_def)
  ultimately show ?thesis
    by (simp add: loading_handleSubmit_resume)
qed

theorem submit_loading_flag_witness:
  "title (formData draft_B) \<noteq> [] \<and> description (formData draft_B) \<noteq> []
   \<and> image (formData draft_B) \<noteq> None
   \<and> loading (fst (handleSubmit_start draft_B))
   \<and> \<not> loading (handleSubmit_resume (Rejected network_error) (fst (handleSubmit_start draft_B)))
   \<and> submit_disabled (view (run fill_and_submit initial_sys))
   \<and> creating (run fill_and_submit initial_sys) = 1
   \<and> \<not> submit_disabled (view (run (fill_and_submit @ [SubmitDone (Rejected network_error)]) initial_sys))"
proof -
  have t: "title (formData draft_B) \<noteq> []" and d: "description (formData draft_B) \<noteq> []"
    and i: "image (formData draft_B) \<noteq> None"
    by (simp_all add: draft_B_def)
  have c: "creating (run fill_and_submit initial_sys) = 1"
    by (simp add: run_fill_and_submit)
  have c': "creating (run (fill_and_submit @ [SubmitDone (Rejected network_error)]) initial_sys) = 0"
    by (simp add: fill_and_submit_def initial_sys_def initial_state_def
        handleFileChange_def submit_disabled_def handleSubmit_start_def send_def Let_def)
  show ?thesis
    using t d i c c'
      submit_loading_flag [OF t d i, of "Rejected network_error" "fst (handleSubmit_start draft_B)"
        fill_and_submit]
      submit_loading_flag [OF t d i, of "Rejected network_error" "fst (handleSubmit_start draft_B)"
        "fill_and_submit @ [SubmitDone (Rejected network_error)]"]
    by simp
qed

section \<open>Delete\<close>

text \<open>
  Claim C3. When a delete of the identifier X completes with a response whose success
  flag is true, the list afterwards is the list before without the items whose
  identifier is X: no item with identifier X is left, and the items with another
  identifier are all kept, in the order they had.
\<close>

theorem handleDelete_success:
  assumes "resp_success r"
  shows "content (handleDelete_resume x (Resolved r) s)
           = filter (\<lambda>it. item_id it \<noteq> x) (content s)
       \<and> (\<forall>it \<in> set (content (handleDelete_resume x (Resolved r) s)). item_id it \<noteq> x)
       \<and> filter (\<lambda>it. item_id it \<noteq> x) (content (handleDelete_resume x (Resolved r) s))
           = filter (\<lambda>it. item_id it \<noteq> x) (content s)"
  using assms by (simp add: handleDelete_resume_def)

theorem handleDelete_success_witness:
  "resp_success (ok_response ())
   \<and> content (handleDelete_resume (NumId 1) (Resolved (ok_response ()))
        (initial_state\<lparr>content := [item_B, item_A, item_B]\<rparr>)) = [item_B, item_B]
   \<and> content (handleDelete_resume (NumId 1) (Resolved (ok_response ()))
        (initial_state\<lparr>content := [item_A]\<rparr>)) = []"
proof -
  have h: "resp_success (ok_response ())"
    by (simp add: ok_response_def)
  show ?thesis
    using h
      handleDelete_success [OF h, of "NumId 1" "initial_state\<lparr>content := [item_B, item_A, item_B]\<rparr>"]
      handleDelete_success [OF h, of "NumId 1" "initial_state\<lparr>content := [item_A]\<rparr>"]
    by (simp add: item_A_def item_B_def)
qed

text \<open>
  Claim C10. When the user declines the confirmation, handleDelete sends no request
  and leaves the whole state as it was: the first part returns the state it was given
  and no request, and the page (state, log of sent requests, requests in flight) after
  the event is the page before it.
\<close>

theorem handleDelete_declined:
  "handleDelete_start False i s = (s, None) \<and> step (Delete False i) sy = sy"
  by (simp add: handleDelete_start_def send_def)

section \<open>List fetch\<close>

text \<open>
  Claim C7. When a list fetch completes with a response whose success flag is true
  and whose data is D, the list afterwards is D, whatever it was before, and the
  message is empty, whatever it was before.
\<close>

theorem fetchContent_success:
  assumes "resp_success r"
  shows "content (fetchContent_resume (Resolved r) s) = resp_data r
       \<and> message (fetchContent_resume (Resolved r) s) = []"
  using assms by (simp add: fetchContent_resume_def)

theorem fetchContent_success_witness:
  "resp_success (ok_response [item_B])
   \<and> content (fetchContent_resume (Resolved (ok_response [item_B]))
        (initial_state\<lparr>content := [item_A], message := ''Error: stale''\<rparr>)) = [item_B]
   \<and> message (fetchContent_resume (Resolved (ok_response [item_B]))
        (initial_state\<lparr>content := [item_A], message := ''Error: stale''\<rparr>)) = []"
proof -
  have h: "resp_success (ok_response [item_B])"
    by (simp add: ok_response_def)
  have d: "resp_data (ok_response [item_B]) = [item_B]"
    by (simp add: ok_response_def)
  show ?thesis
    using h d
      fetchContent_success [OF h, of "initial_state\<lparr>content := [item_A], message := ''Error: stale''\<rparr>"]
    by simp
qed

text \<open>
  Claim C4. When a list fetch fails (it is rejected with an error status, with no
  response or with any other error, or it resolves with a false success flag), the
  list stays as it was and the message is set to a text that is not empty. The text
  is chosen by the shape of the failure: the status and status text after
  \<open>Error: \<close> when the server responded with an error status, a fixed sentence when
  no response was received (and this sentence in no other case), the error's own text
  after \<open>Error: \<close> for any other error, and the response's message after
  \<open>Server error: \<close> for a false success flag (a text that no rejected fetch gives).
  The message does not always tell an error status from another client-side error:
  the two texts are the same exactly when the error's own text is the status, a
  hyphen between two spaces, and the status text.
\<close>

theorem fetchContent_failure:
  assumes "fetch_failed out"
  shows "content (fetchContent_resume out s) = content s
       \<and> message (fetchContent_resume out s) \<noteq> []
       \<and> (out = Rejected e \<and> err_response e = Some r \<longrightarrow>
             message (fetchContent_resume out s)
               = ''Error: '' @ show_nat (status r) @ '' - '' @ statusText r)
       \<and> (out = Rejected e \<and> err_response e = None \<and> \<not> err_request e \<longrightarrow>
             message (fetchContent_resume out s) = ''Error: '' @ err_message e)
       \<and> (out = Rejected e \<longrightarrow>
             (message (fetchContent_resume out s)
                = ''Cannot connect to server. Make sure backend is running on port 2148!'')
             = (err_response e = None \<and> err_request e))
       \<and> (out = Resolved d \<longrightarrow>
             message (fetchContent_resume out s)
               = ''Server error: '' @ or_else (resp_message d) ''Unknown error'')
       \<and> (out = Resolved d \<longrightarrow>
             message (fetchContent_resume out s) \<noteq> message (fetchContent_resume (Rejected e') s'))
       \<and> (out = Rejected e \<and> err_response e = Some r
            \<and> err_response e' = None \<and> \<not> err_request e' \<longrightarrow>
             (message (fetchContent_resume out s) = message (fetchContent_resume (Rejected e') s'))
             = (err_message e' = show_nat (status r) @ '' - '' @ statusText r))"
  using assms
  by (cases out) (auto simp add: fetchContent_resume_def split: option.splits)

theorem fetchContent_failure_witness:
  "fetch_failed (Rejected status_error) \<and> fetch_failed (Rejected network_error)
   \<and> fetch_failed (Rejected client_error) \<and> fetch_failed (Resolved (refused_response [] ''down''))
   \<and> content (fetchContent_resume (Rejected status_error) (initial_state\<lparr>content := [item_A]\<rparr>))
       = [item_A]
   \<and> message (fetchContent_resume (Rejected status_error) (initial_state\<lparr>content := [item_A]\<rparr>))
       = ''Error: 500 - Internal Server Error''
   \<and> message (fetchContent_resume (Rejected network_error) (initial_state\<lparr>content := [item_A]\<rparr>))
       = ''Cannot connect to server. Make sure backend is running on port 2148!''
   \<and> message (fetchContent_resume (Rejected client_error) (initial_state\<lparr>content := [item_A]\<rparr>))
       = ''Error: Invalid URL''
   \<and> message (fetchContent_resume (Resolved (refused_response [] ''down''))
        (initial_state\<lparr>content := [item_A]\<rparr>))
       = ''Server error: down''
   \<and> message (fetchContent_resume (Rejected status_error) (initial_state\<lparr>content := [item_A]\<rparr>))
       \<noteq> message (fetchContent_resume (Rejected client_error) initial_state)
   \<and> message (fetchContent_resume (Resolved (refused_response [] ''down''))
        (initial_state\<lparr>content := [item_A]\<rparr>))
       \<noteq> message (fetchContent_resume (Rejected client_error) initial_state)"
proof -
  let ?s = "initial_state\<lparr>content := [item_A]\<rparr>"
  let ?r = "\<lparr>status = 500, statusText = ''Internal Server Error'',
          err_data = Some \<lparr>body_message = Some ''Disk full''\<rparr>\<rparr>"
  have h1: "fetch_failed (Rejected status_error)" and h2: "fetch_failed (Rejected network_error)"
    and h3: "fetch_failed (Rejected client_error)"
    by simp_all
  have h4: "fetch_failed (Resolved (refused_response [] ''down''))"
    by (simp add: refused_response_def)
  have e1: "err_response status_error = Some ?r"
    by (simp add: status_error_def)
  have e2: "err_response network_error = None \<and> err_request network_error"
    by (simp add: network_error_def)
  have e3: "err_response client_error = None \<and> \<not> err_request client_error
      \<and> err_message client_error = ''Invalid URL''"
    by (simp add: client_error_def)
  have e4: "or_else (resp_message (refused_response ([]::item list) ''down'')) ''Unknown error''
      = ''down''"
    by (simp add: refused_response_def)
  have c: "content ?s = [item_A]"
    by simp
  have m: "message (fetchContent_resume (Rejected client_error) initial_state)
      = ''Error: Invalid URL''"
    by (simp add: fetchContent_resume_def client_error_def)
  show ?thesis
    using h1 h2 h3 h4 e1 e2 e3 e4 c m
      fetchContent_failure [OF h1, of ?s status_error ?r _ client_error initial_state]
      fetchContent_failure [OF h2, of ?s network_error]
      fetchContent_failure [OF h3, of ?s client_error]
      fetchContent_failure [OF h4, of ?s _ _ "refused_response [] ''down''" client_error
        initial_state]
    by (simp add: show_nat_500)
qed

text \<open>
  The claim as first stated has the message tell the three shapes of a rejected fetch
  apart. It does not: a rejection with status 500 and status text
  \<open>Internal Server Error\<close>, and a rejection with neither response nor request whose
  text is \<open>500 - Internal Server Error\<close>, are of different shapes and set the same
  message.
\<close>

theorem fetchContent_failure_shapes_coincide:
  "err_response status_error \<noteq> None
   \<and> err_response status_like_error = None \<and> \<not> err_request status_like_error
   \<and> message (fetchContent_resume (Rejected status_error) initial_state)
       = ''Error: 500 - Internal Server Error''
   \<and> message (fetchContent_resume (Rejected status_like_error) initial_state)
       = ''Error: 500 - Internal Server Error''
   \<and> message (fetchContent_resume (Rejected status_error) initial_state)
       = message (fetchContent_resume (Rejected status_like_error) initial_state)"
  by (simp add: fetchContent_resume_def status_error_def status_like_error_def show_nat_500)

section \<open>Health probe\<close>

text \<open>
  Claim C5. The claim asks for the disconnected indicator on every probe that does
  not come back with a true success flag. A true flag gives the connected indicator
  and a rejected probe the disconnected one (the lemma below), but a response with a
  false success flag sets nothing: on the initial state the status stays at
  \<open>checking...\<close>, which is not the disconnected indicator.
\<close>

theorem checkServerHealth_success_false:
  "serverStatus (checkServerHealth_resume (Resolved (refused_response () ''unhealthy''))
      initial_state) = ''checking...''
   \<and> serverStatus (checkServerHealth_resume (Resolved (refused_response () ''unhealthy''))
      initial_state) \<noteq> cross_mark @ '' Disconnected''"
  by (simp add: checkServerHealth_resume_def initial_state_def cross_mark_def
      refused_response_def)

lemma checkServerHealth_handled:
  "resp_success r \<Longrightarrow>
     serverStatus (checkServerHealth_resume (Resolved r) s) = check_mark @ '' Connected''"
  "serverStatus (checkServerHealth_resume (Rejected e) s) = cross_mark @ '' Disconnected''"
  by (simp_all add: checkServerHealth_resume_def)

section \<open>The content list changes on three paths only\<close>

text \<open>
  Claim C9. An event of the page changes the content list only if it is the
  completion of a fetch with a true success flag (the list becomes the data), of a
  create with a true success flag (the item is put in front) or of a delete with a
  true success flag (the items with that identifier are filtered out). A rejected
  fetch, create or delete, one that resolves with a false success flag, and the first
  part of handleSubmit (the validation failure with it) and of handleDelete leave the
  list as it was.
\<close>

theorem content_changes_only_on_success:
  "(content (view (step e s)) \<noteq> content (view s) \<longrightarrow>
      (\<exists>r. e = FetchDone (Resolved r) \<and> resp_success r
            \<and> content (view (step e s)) = resp_data r)
    \<or> (\<exists>r. e = SubmitDone (Resolved r) \<and> resp_success r
            \<and> content (view (step e s)) = resp_data r # content (view s))
    \<or> (\<exists>r x. e = DeleteDone x (Resolved r) \<and> resp_success r
            \<and> content (view (step e s)) = filter (\<lambda>it. item_id it \<noteq> x) (content (view s))))
   \<and> content (fetchContent_resume (Rejected er) v) = content v
   \<and> content (handleSubmit_resume (Rejected er) v) = content v
   \<and> content (handleDelete_resume i (Rejected er) v) = content v
   \<and> (\<not> resp_success rf \<longrightarrow> content (fetchContent_resume (Resolved rf) v) = content v)
   \<and> (\<not> resp_success rc \<longrightarrow> content (handleSubmit_resume (Resolved rc) v) = content v)
   \<and> (\<not> resp_success rd \<longrightarrow> content (handleDelete_resume i (Resolved rd) v) = content v)
   \<and> content (fst (handleSubmit_start v)) = content v
   \<and> content (fst (handleDelete_start c i v)) = content v"
proof -
  have ev: "content (view (step e s)) \<noteq> content (view s) \<longrightarrow>
      (\<exists>r. e = FetchDone (Resolved r) \<and> resp_success r
            \<and> content (view (step e s)) = resp_data r)
    \<or> (\<exists>r. e = SubmitDone (Resolved r) \<and> resp_success r
            \<and> content (view (step e s)) = resp_data r # content (view s))
    \<or> (\<exists>r x. e = DeleteDone x (Resolved r) \<and> resp_success r
            \<and> content (view (step e s)) = filter (\<lambda>it. item_id it \<noteq> x) (content (view s)))"
  proof (cases e)
    case (FetchDone out)
    then show ?thesis
      by (cases out) (simp_all add: content_fetchContent_resume)
  next
    case (SubmitDone out)
    then show ?thesis
      by (cases out) (simp_all add: content_handleSubmit_resume)
  next
    case (DeleteDone x out)
    then show ?thesis
      by (cases out) (simp_all add: content_handleDelete_resume)
  next
    case Submit
    then show ?thesis
      by (simp add: Let_def view_send content_start)
  qed (simp_all add: view_send content_start content_handleInputChange
        content_handleFileChange content_checkServerHealth_resume)
  show ?thesis
    using ev
    by (simp add: content_fetchContent_resume content_handleSubmit_resume
        content_handleDelete_resume content_start)
qed

theorem content_changes_only_on_success_witness:
  "content (view (step (SubmitDone (Resolved (ok_response item_B))) (run fill_and_submit initial_sys)))
     \<noteq> content (view (run fill_and_submit initial_sys))
   \<and> content (view (step (SubmitDone (Resolved (ok_response item_B))) (run fill_and_submit initial_sys)))
       = [item_B]
   \<and> \<not> resp_success (refused_response [item_B] ''no'')
   \<and> \<not> resp_success (refused_response item_B ''no'')
   \<and> \<not> resp_success (refused_response () ''no'')
   \<and> content (fetchContent_resume (Resolved (refused_response [item_B] ''no''))
        (initial_state\<lparr>content := [item_A]\<rparr>)) = [item_A]
   \<and> content (handleSubmit_resume (Resolved (refused_response item_B ''no''))
        (initial_state\<lparr>content := [item_A]\<rparr>)) = [item_A]
   \<and> content (handleDelete_resume (NumId 1) (Resolved (refused_response () ''no''))
        (initial_state\<lparr>content := [item_A]\<rparr>)) = [item_A]"
proof -
  let ?e = "SubmitDone (Resolved (ok_response item_B))"
  let ?s = "run fill_and_submit initial_sys"
  let ?v = "initial_state\<lparr>content := [item_A]\<rparr>"
  have before: "content (view ?s) = []"
    by (simp add: run_fill_and_submit draft_B_def initial_state_def)
  have after: "content (view (step ?e ?s)) = [item_B]"
    by (simp add: run_fill_and_submit content_handleSubmit_resume ok_response_def
        draft_B_def initial_state_def)
  have changed: "content (view (step ?e ?s)) \<noteq> content (view ?s)"
    unfolding before after by simp
  have f: "\<not> resp_success (refused_response [item_B] ''no'')"
    "\<not> resp_success (refused_response item_B ''no'')"
    "\<not> resp_success (refused_response () ''no'')"
    by (simp_all add: refused_response_def)
  have c: "content ?v = [item_A]"
    by simp
  show ?thesis
    using changed after f c
      content_changes_only_on_success [of ?e ?s network_error ?v "NumId 1"
        "refused_response [item_B] ''no''" "refused_response item_B ''no''"
        "refused_response () ''no''" True]
    by simp
qed

end
